theory Spec2Isabelle
  imports Main
begin

section \<open>Results of asynchronous operations\<close>

text \<open>
  Every operation of the repository is an async function: its promise resolves to a
  value or rejects. A rejection is either the error of a collaborator (the storage
  layer, the payment provider, the HTTP client), which no operation catches, or the
  TypeError JavaScript raises when a property of null or undefined is read.
  A result is \<open>'e failure + 'a\<close>, with \<open>Inl\<close> the rejection; \<open>'e\<close> is the type of
  the collaborators' errors.
\<close>

datatype 'e failure = TypeError | Rejected 'e

section \<open>Data model of the offer persistence adapter\<close>

text \<open>
  Modelled from the spec: the value objects of the domain (OfferName, OfferCode,
  OfferStatus and the others) are not part of the sources. The repository reads their
  \<open>value\<close> property and compares two of them with \<open>equals\<close>; a value object holds one
  value and two value objects are equal when their values are.
\<close>

datatype 'a ValueObject = ValueObject (val: 'a)

definition equals :: "'a ValueObject \<Rightarrow> 'a ValueObject \<Rightarrow> bool" where
  "equals a b = (val a = val b)"

definition OfferStatus_create :: "string \<Rightarrow> string ValueObject" where
  "OfferStatus_create s = ValueObject s"

text \<open>The tier of an offer: \<open>offer.tier.id\<close> and \<open>offer.tier.name\<close>.\<close>

record Tier =
  tier_id :: string
  tier_name :: string

text \<open>The value of \<open>offer.duration\<close>: \<open>{type, months}\<close>; \<open>months\<close> may be null.\<close>

record DurationValue =
  duration_type :: string
  duration_months :: "int option"

text \<open>
  The domain Offer, with the properties the repository reads: \<open>offer.name.value\<close> is
  \<open>val (offer_name offer)\<close>. \<open>offer.currency\<close> itself may be null (\<open>None\<close>), which
  \<open>save\<close> tests before it reads \<open>offer.currency.value\<close>. The class is not part of the
  sources; \<open>isNew\<close>, \<open>codeChanged\<close> and \<open>oldCode\<close> are getters of it, taken here as
  fields, and \<open>oldCode\<close> is \<open>None\<close> when it is undefined.
\<close>

record Offer =
  offer_id :: string
  offer_name :: "string ValueObject"
  offer_code :: "string ValueObject"
  offer_displayTitle :: "string option ValueObject"
  offer_displayDescription :: "string option ValueObject"
  offer_type :: "string ValueObject"
  offer_amount :: "int ValueObject"
  offer_cadence :: "string ValueObject"
  offer_currency :: "string ValueObject option"
  offer_duration :: "DurationValue ValueObject"
  offer_status :: "string ValueObject"
  offer_tier :: Tier
  offer_redemptionCount :: nat
  offer_stripe_coupon_id :: "string option"
  offer_isNew :: bool
  offer_codeChanged :: bool
  offer_oldCode :: "string option"

text \<open>
  The \<open>data\<close> object \<open>save\<close> hands to the storage layer. A null is \<open>None\<close>
  (\<open>duration_in_months\<close>, \<open>currency\<close>, the titles). The key \<open>stripe_coupon_id\<close> is
  not part of the object literal: \<open>None\<close> means the key is absent, \<open>Some i\<close> that
  \<open>data.stripe_coupon_id = i\<close> was assigned.
\<close>

record OfferData =
  data_id :: string
  data_name :: string
  data_code :: string
  data_portal_title :: "string option"
  data_portal_description :: "string option"
  data_discount_type :: string
  data_discount_amount :: int
  data_interval :: string
  data_product_id :: string
  data_duration :: string
  data_duration_in_months :: "int option"
  data_currency :: "string option"
  data_active :: bool
  data_stripe_coupon_id :: "string option"

text \<open>
  The parameters of the coupon-creation call. \<open>duration_in_months\<close>, \<open>percent_off\<close>,
  \<open>amount_off\<close> and \<open>currency\<close> are assigned on some paths only: \<open>None\<close> is an
  absent key, \<open>Some v\<close> an assigned one (for \<open>duration_in_months\<close> the assigned value
  is \<open>offer.duration.value.months\<close>, itself possibly null).
\<close>

record Coupon =
  coupon_name :: string
  coupon_duration :: string
  coupon_duration_in_months :: "int option option"
  coupon_percent_off :: "int option"
  coupon_amount_off :: "int option"
  coupon_currency :: "string option"

text \<open>What the coupon-creation call resolves to: \<open>couponData.id\<close>.\<close>

record CouponData =
  couponData_id :: string

text \<open>
  Modelled from the spec: OfferCodeChangeEvent is not part of the sources. Its payload
  is the offer id, the previous code and the new code; \<open>currentCode\<close> is given the
  value object \<open>offer.code\<close>, \<open>previousCode\<close> is \<open>offer.oldCode\<close>.
\<close>

record OfferCodeChangeEvent =
  event_offerId :: string
  event_previousCode :: "string option"
  event_currentCode :: "string ValueObject"

definition OfferCodeChangeEvent_create ::
  "string \<Rightarrow> string option \<Rightarrow> string ValueObject \<Rightarrow> OfferCodeChangeEvent" where
  "OfferCodeChangeEvent_create offerId previousCode currentCode =
     \<lparr>event_offerId = offerId, event_previousCode = previousCode,
      event_currentCode = currentCode\<rparr>"

text \<open>Options: \<open>{transacting}\<close>; for \<open>edit\<close>, \<open>{...options, id: data.id}\<close>.\<close>

record BaseOptions =
  transacting :: "nat option"

record EditOptions =
  edit_transacting :: "nat option"
  edit_id :: string

text \<open>The row of an offer as \<open>model.toJSON()\<close> gives it, with the joined product.\<close>

record Product =
  product_id :: string
  product_name :: string

record OfferJSON =
  json_id :: string
  json_name :: string
  json_code :: string
  json_portal_title :: "string option"
  json_portal_description :: "string option"
  json_discount_type :: string
  json_discount_amount :: int
  json_interval :: string
  json_currency :: "string option"
  json_duration :: string
  json_duration_in_months :: "int option"
  json_stripe_coupon_id :: "string option"
  json_active :: bool
  json_product :: "Product option"

text \<open>The criteria of \<open>findOne\<close>: \<open>{name}\<close>, \<open>{code}\<close> or \<open>{id}\<close>.\<close>

datatype criteria = ByName string | ByCode string | ById string

text \<open>The properties \<open>mapToOffer\<close> hands to \<open>Offer.create\<close>.\<close>

record OfferProps =
  props_id :: string
  props_name :: string
  props_code :: string
  props_display_title :: "string option"
  props_display_description :: "string option"
  props_type :: string
  props_amount :: int
  props_cadence :: string
  props_currency :: "string option"
  props_duration :: string
  props_duration_in_months :: "int option"
  props_redemptionCount :: nat
  props_stripe_coupon_id :: "string option"
  props_status :: string
  props_tier :: Tier

section \<open>Filters of getAll\<close>

text \<open>
  The filter of \<open>getAll\<close> reaches the transformers as a structured query: an object
  whose keys are field names with the value asked for (\<open>{status: 'active'}\<close>), or
  \<open>$and\<close> or \<open>$or\<close> with a list of sub-queries. A value is a primitive, a list, or an
  object of operators (\<open>{$in: ['active', 'archived']}\<close>, \<open>{$ne: 'archived'}\<close>). An
  object is the list of its entries in insertion order.
\<close>

datatype qvalue =
    QString string
  | QBool bool
  | QNumber int
  | QNull
  | QArray "qvalue list"
  | QOperators "(string \<times> qvalue) list"

datatype group_op = And | Or

fun group_key :: "group_op \<Rightarrow> string" where
  "group_key And = ''$and''"
| "group_key Or = ''$or''"

datatype statement = Statement string qvalue | Group group_op "statement list list"

type_synonym query = "statement list"

fun statement_key :: "statement \<Rightarrow> string" where
  "statement_key (Statement k _) = k"
| "statement_key (Group op _) = group_key op"

text \<open>
  \<open>Object.assign(memo, fragment)\<close>: every entry of the fragment is written to the
  object, replacing the entry of the same key where there is one.
\<close>

fun assign_entry :: "statement \<Rightarrow> query \<Rightarrow> query" where
  "assign_entry s [] = [s]"
| "assign_entry s (t # ts) =
     (if statement_key t = statement_key s then s # ts else t # assign_entry s ts)"

definition Object_assign :: "query \<Rightarrow> query \<Rightarrow> query" where
  "Object_assign memo fragment = foldl (\<lambda>m s. assign_entry s m) memo fragment"

definition assign_all :: "query list \<Rightarrow> query" where
  "assign_all fragments = foldl Object_assign [] fragments"

text \<open>
  Modelled from the spec: \<open>mapQuery\<close> and \<open>mapKeyValues\<close> belong to the package
  @nexes/mongo-utils, which is not part of the sources. \<open>mapQuery query fn\<close> walks the
  query: it calls \<open>fn value key\<close> on every field and merges the fragments \<open>fn\<close>
  returns into the result (undefined, here \<open>None\<close>, adds nothing); it maps the
  sub-queries of a group in the same way, leaves out a sub-query that comes back
  empty, and leaves out the group when no sub-query is left. \<open>mapKeyValues\<close> renames
  the key \<open>from\<close> to \<open>to\<close> and replaces a value listed in \<open>values\<close>; every other field
  is kept. What it makes of a value that \<open>values\<close> does not list (another string, a
  list, an object of operators) is not described: it is the parameter \<open>unlisted\<close>.
\<close>

primrec mapStatement :: "(qvalue \<Rightarrow> string \<Rightarrow> query option) \<Rightarrow> statement \<Rightarrow> query" where
  "mapStatement fn (Statement key v) = (case fn v key of None \<Rightarrow> [] | Some fragment \<Rightarrow> fragment)"
| "mapStatement fn (Group op qs) =
     (case filter (\<lambda>q. q \<noteq> []) (map assign_all (map (map (mapStatement fn)) qs)) of
        [] \<Rightarrow> []
      | q # qs' \<Rightarrow> [Group op (q # qs')])"

definition mapQuery :: "query \<Rightarrow> (qvalue \<Rightarrow> string \<Rightarrow> query option) \<Rightarrow> query" where
  "mapQuery input fn = assign_all (map (mapStatement fn) input)"

definition mapValue :: "(qvalue \<Rightarrow> qvalue) \<Rightarrow> (qvalue \<times> qvalue) list \<Rightarrow> qvalue \<Rightarrow> qvalue" where
  "mapValue unlisted values v = (case map_of values v of Some to \<Rightarrow> to | None \<Rightarrow> unlisted v)"

definition mapKeyValues ::
  "(qvalue \<Rightarrow> qvalue) \<Rightarrow> string \<times> string \<Rightarrow> (qvalue \<times> qvalue) list \<Rightarrow> query \<Rightarrow> query" where
  "mapKeyValues unlisted key values input =
     mapQuery input (\<lambda>v k. if k \<noteq> fst key then Some [Statement k v]
                            else Some [Statement (snd key) (mapValue unlisted values v)])"

text \<open>The transformers of the repository.\<close>

definition status_values :: "(qvalue \<times> qvalue) list" where
  "status_values = [(QString ''active'', QBool True), (QString ''archived'', QBool False)]"

definition statusTransformer :: "(qvalue \<Rightarrow> qvalue) \<Rightarrow> query \<Rightarrow> query" where
  "statusTransformer unlisted = mapKeyValues unlisted (''status'', ''active'') status_values"

definition rejectNonStatusTransformer :: "query \<Rightarrow> query" where
  "rejectNonStatusTransformer input =
     mapQuery input (\<lambda>v key. if key \<noteq> ''status'' then None else Some [Statement key v])"

text \<open>lodash's \<open>flowRight(f, g)\<close> is the function that applies \<open>g\<close>, then \<open>f\<close>.\<close>

definition flowRight :: "('b \<Rightarrow> 'c) \<Rightarrow> ('a \<Rightarrow> 'b) \<Rightarrow> 'a \<Rightarrow> 'c" where
  "flowRight f g = (\<lambda>x. f (g x))"

definition mongoTransformer :: "(qvalue \<Rightarrow> qvalue) \<Rightarrow> query \<Rightarrow> query" where
  "mongoTransformer unlisted = flowRight (statusTransformer unlisted) rejectNonStatusTransformer"

text \<open>The fields of a query, with those of its groups' sub-queries.\<close>

primrec statement_fields :: "statement \<Rightarrow> (string \<times> qvalue) list" where
  "statement_fields (Statement key v) = [(key, v)]"
| "statement_fields (Group op qs) = concat (map concat (map (map statement_fields) qs))"

definition query_fields :: "query \<Rightarrow> (string \<times> qvalue) list" where
  "query_fields q = concat (map statement_fields q)"

text \<open>
  A query is an object, and so are the sub-queries of its groups: no two entries of
  one object have the same key.
\<close>

fun wf_statement :: "statement \<Rightarrow> bool" where
  "wf_statement (Statement k v) = True"
| "wf_statement (Group op qs) =
     (\<forall>q\<in>set qs. distinct (map statement_key q) \<and> (\<forall>s\<in>set q. wf_statement s))"

definition wf_query :: "query \<Rightarrow> bool" where
  "wf_query q \<longleftrightarrow> distinct (map statement_key q) \<and> (\<forall>s\<in>set q. wf_statement s)"

text \<open>
  The options of \<open>getAll\<close> (\<open>{transacting, filter}\<close>) and those it hands to \<open>findAll\<close>:
  \<open>{...options, mongoTransformer, withRelated: ['product']}\<close>.
\<close>

record ListOptions = BaseOptions +
  filter_q :: "query option"

record FindAllOptions =
  findAll_transacting :: "nat option"
  findAll_filter :: "query option"
  findAll_mongoTransformer :: "query \<Rightarrow> query"
  findAll_withRelated :: "string list"

text \<open>
  Modelled from the spec: the storage layer is not part of the sources. The query it
  runs is the filter with the \<open>mongoTransformer\<close> option applied to it.
\<close>

definition effective_query :: "FindAllOptions \<Rightarrow> query option" where
  "effective_query fo = map_option (findAll_mongoTransformer fo) (findAll_filter fo)"

section \<open>Collaborators and the calls made to them\<close>

text \<open>
  The calls an operation makes to its collaborators, in the order it makes them. An
  operation returns the list of its calls and its result.
\<close>

datatype effect =
    FindOne criteria "BaseOptions option"
  | FindAll FindAllOptions
  | Count string "nat option"
  | Dispatch OfferCodeChangeEvent
  | CreateCoupon Coupon
  | Add OfferData "BaseOptions option"
  | Edit OfferData EditOptions

fun is_Dispatch :: "effect \<Rightarrow> bool" where
  "is_Dispatch (Dispatch _) = True"
| "is_Dispatch _ = False"

fun is_CreateCoupon :: "effect \<Rightarrow> bool" where
  "is_CreateCoupon (CreateCoupon _) = True"
| "is_CreateCoupon _ = False"

fun is_Add :: "effect \<Rightarrow> bool" where
  "is_Add (Add _ _) = True"
| "is_Add _ = False"

fun is_Edit :: "effect \<Rightarrow> bool" where
  "is_Edit (Edit _ _) = True"
| "is_Edit _ = False"

text \<open>
  The repository is constructed from its collaborators: the offer model and the
  redemption model of the storage layer and the payment provider's service. What a
  call resolves to is the collaborator's answer to its arguments. \<open>Offer.create\<close>,
  which the repository imports, is not part of the sources: it stands with the
  collaborators, resolving to an Offer or rejecting with its validation error.
\<close>

record 'e OfferRepository =
  OfferModel_findOne :: "criteria \<Rightarrow> BaseOptions option \<Rightarrow> 'e + OfferJSON option"
  OfferModel_findAll :: "FindAllOptions \<Rightarrow> 'e + OfferJSON list"
  OfferModel_add :: "OfferData \<Rightarrow> BaseOptions option \<Rightarrow> 'e + unit"
  OfferModel_edit :: "OfferData \<Rightarrow> EditOptions \<Rightarrow> 'e + unit"
  OfferRedemptionModel_count :: "string \<Rightarrow> nat option \<Rightarrow> 'e + nat"
  stripeAPIService_createCoupon :: "Coupon \<Rightarrow> 'e + CouponData"
  Offer_create :: "OfferProps \<Rightarrow> 'e + Offer"

definition await :: "'e + 'a \<Rightarrow> 'e failure + 'a" where
  "await r = (case r of Inl e \<Rightarrow> Inl (Rejected e) | Inr v \<Rightarrow> Inr v)"

section \<open>save\<close>

text \<open>The object literal \<open>data\<close> at the head of \<open>save\<close>.\<close>

definition save_data :: "Offer \<Rightarrow> OfferData" where
  "save_data offer =
     \<lparr>data_id = offer_id offer,
      data_name = val (offer_name offer),
      data_code = val (offer_code offer),
      data_portal_title = val (offer_displayTitle offer),
      data_portal_description = val (offer_displayDescription offer),
      data_discount_type =
        (if val (offer_type offer) = ''fixed'' then ''amount'' else ''percent''),
      data_discount_amount = val (offer_amount offer),
      data_interval = val (offer_cadence offer),
      data_product_id = tier_id (offer_tier offer),
      data_duration = duration_type (val (offer_duration offer)),
      data_duration_in_months =
        (if duration_type (val (offer_duration offer)) = ''repeating''
         then duration_months (val (offer_duration offer)) else None),
      data_currency =
        (case offer_currency offer of Some c \<Rightarrow> Some (val c) | None \<Rightarrow> None),
      data_active = equals (offer_status offer) (OfferStatus_create ''active''),
      data_stripe_coupon_id = None\<rparr>"

text \<open>The event \<open>save\<close> dispatches when the offer is new or its code changed.\<close>

definition save_dispatch :: "Offer \<Rightarrow> effect list" where
  "save_dispatch offer =
     (if offer_codeChanged offer \<or> offer_isNew offer
      then [Dispatch (OfferCodeChangeEvent_create (offer_id offer) (offer_oldCode offer)
                        (offer_code offer))]
      else [])"

text \<open>
  The coupon parameters of a new offer. In the branch of a type other than
  \<open>percent\<close>, \<open>offer.currency.value\<close> is read with no test: a null currency raises
  a TypeError there.
\<close>

definition save_coupon :: "Offer \<Rightarrow> 'e failure + Coupon" where
  "save_coupon offer =
     (let coupon = \<lparr>coupon_name = val (offer_name offer),
                     coupon_duration = duration_type (val (offer_duration offer)),
                     coupon_duration_in_months = None,
                     coupon_percent_off = None,
                     coupon_amount_off = None,
                     coupon_currency = None\<rparr>;
          coupon = (if duration_type (val (offer_duration offer)) = ''repeating''
                    then coupon\<lparr>coupon_duration_in_months :=
                                  Some (duration_months (val (offer_duration offer)))\<rparr>
                    else coupon)
      in if val (offer_type offer) = ''percent''
         then Inr (coupon\<lparr>coupon_percent_off := Some (val (offer_amount offer))\<rparr>)
         else (case offer_currency offer of
                 None \<Rightarrow> Inl TypeError
               | Some c \<Rightarrow>
                   Inr (coupon\<lparr>coupon_amount_off := Some (val (offer_amount offer)),
                               coupon_currency := Some (val c)\<rparr>)))"

definition edit_options :: "BaseOptions option \<Rightarrow> string \<Rightarrow> EditOptions" where
  "edit_options options i =
     \<lparr>edit_transacting = (case options of None \<Rightarrow> None | Some opt \<Rightarrow> transacting opt),
      edit_id = i\<rparr>"

definition save ::
  "'e OfferRepository \<Rightarrow> Offer \<Rightarrow> BaseOptions option \<Rightarrow> effect list \<times> ('e failure + unit)" where
  "save repo offer options =
     (let data = save_data offer;
          dispatched = save_dispatch offer
      in if offer_isNew offer then
           (case save_coupon offer of
              Inl err \<Rightarrow> (dispatched, Inl err)
            | Inr coupon \<Rightarrow>
                (case stripeAPIService_createCoupon repo coupon of
                   Inl e \<Rightarrow> (dispatched @ [CreateCoupon coupon], Inl (Rejected e))
                 | Inr couponData \<Rightarrow>
                     (let data = data\<lparr>data_stripe_coupon_id := Some (couponData_id couponData)\<rparr>
                      in (dispatched @ [CreateCoupon coupon, Add data options],
                          await (OfferModel_add repo data options)))))
         else (dispatched @ [Edit data (edit_options options (data_id data))],
               await (OfferModel_edit repo data (edit_options options (data_id data)))))"

section \<open>existsByName and existsByCode\<close>

text \<open>\<open>findOne\<close> resolves to the model found, or to null (\<open>None\<close>) when no row matches.\<close>

definition existsByName ::
  "'e OfferRepository \<Rightarrow> string \<Rightarrow> BaseOptions option \<Rightarrow> effect list \<times> ('e failure + bool)" where
  "existsByName repo name options =
     ([FindOne (ByName name) options],
      case OfferModel_findOne repo (ByName name) options of
        Inl e \<Rightarrow> Inl (Rejected e)
      | Inr None \<Rightarrow> Inr False
      | Inr (Some model) \<Rightarrow> Inr True)"

definition existsByCode ::
  "'e OfferRepository \<Rightarrow> string \<Rightarrow> BaseOptions option \<Rightarrow> effect list \<times> ('e failure + bool)" where
  "existsByCode repo code options =
     ([FindOne (ByCode code) options],
      case OfferModel_findOne repo (ByCode code) options of
        Inl e \<Rightarrow> Inl (Rejected e)
      | Inr None \<Rightarrow> Inr False
      | Inr (Some model) \<Rightarrow> Inr True)"

section \<open>mapToOffer and getAll\<close>

text \<open>The object literal \<open>mapToOffer\<close> hands to \<open>Offer.create\<close>.\<close>

definition mapToOffer_props :: "OfferJSON \<Rightarrow> nat \<Rightarrow> Product \<Rightarrow> OfferProps" where
  "mapToOffer_props json count product =
     \<lparr>props_id = json_id json,
      props_name = json_name json,
      props_code = json_code json,
      props_display_title = json_portal_title json,
      props_display_description = json_portal_description json,
      props_type = (if json_discount_type json = ''amount'' then ''fixed'' else ''percent''),
      props_amount = json_discount_amount json,
      props_cadence = json_interval json,
      props_currency = json_currency json,
      props_duration = json_duration json,
      props_duration_in_months = json_duration_in_months json,
      props_redemptionCount = count,
      props_stripe_coupon_id = json_stripe_coupon_id json,
      props_status = (if json_active json then ''active'' else ''archived''),
      props_tier = \<lparr>tier_id = product_id product, tier_name = product_name product\<rparr>\<rparr>"

text \<open>
  \<open>mapToOffer\<close> counts the redemptions of the offer, then builds the properties and
  returns what \<open>Offer.create\<close> makes of them. \<open>json.product.id\<close> is read with no
  test: a row without its joined product raises a TypeError there, after the count.
\<close>

definition mapToOffer ::
  "'e OfferRepository \<Rightarrow> OfferJSON \<Rightarrow> BaseOptions \<Rightarrow> effect list \<times> ('e failure + Offer)" where
  "mapToOffer repo json options =
     ([Count (json_id json) (transacting options)],
      case OfferRedemptionModel_count repo (json_id json) (transacting options) of
        Inl e \<Rightarrow> Inl (Rejected e)
      | Inr count \<Rightarrow>
          (case json_product json of
             None \<Rightarrow> Inl TypeError
           | Some product \<Rightarrow> await (Offer_create repo (mapToOffer_props json count product))))"

text \<open>
  \<open>Promise.all\<close>: the values of all the promises when all resolve. When some reject
  it rejects with the rejection that comes first in time; the model has no time, and
  the result is the list of the rejections, of which that one is a member.
\<close>

definition Promise_all :: "('x + 'a) list \<Rightarrow> 'x list + 'a list" where
  "Promise_all ps =
     (case [e. Inl e \<leftarrow> ps] of
        [] \<Rightarrow> Inr [v. Inr v \<leftarrow> ps]
      | e # es \<Rightarrow> Inl (e # es))"

definition getAll_findAll_options :: "(qvalue \<Rightarrow> qvalue) \<Rightarrow> ListOptions option \<Rightarrow> FindAllOptions" where
  "getAll_findAll_options unlisted options =
     \<lparr>findAll_transacting = (case options of None \<Rightarrow> None | Some opt \<Rightarrow> transacting opt),
      findAll_filter = (case options of None \<Rightarrow> None | Some opt \<Rightarrow> filter_q opt),
      findAll_mongoTransformer = mongoTransformer unlisted,
      findAll_withRelated = [''product'']\<rparr>"

definition getAll ::
  "(qvalue \<Rightarrow> qvalue) \<Rightarrow> 'e OfferRepository \<Rightarrow> ListOptions option \<Rightarrow>
     effect list \<times> ('e failure list + Offer list)" where
  "getAll unlisted repo options =
     (case OfferModel_findAll repo (getAll_findAll_options unlisted options) of
        Inl e \<Rightarrow> ([FindAll (getAll_findAll_options unlisted options)], Inl [Rejected e])
      | Inr models \<Rightarrow>
          (let mapOptions = \<lparr>transacting = (case options of None \<Rightarrow> None
                                              | Some opt \<Rightarrow> transacting opt)\<rparr>;
               offers = map (\<lambda>model. mapToOffer repo model mapOptions) models
           in (FindAll (getAll_findAll_options unlisted options) # concat (map fst offers),
               Promise_all (map snd offers))))"

section \<open>The image upload of the service provider\<close>

record Image =
  url :: string

record ImagesResponse =
  images :: "Image list"

text \<open>The API client, of which \<open>uploadImage\<close> uses \<open>images.upload\<close>.\<close>

record ('f, 'e) ApiService =
  images_upload :: "'f \<Rightarrow> 'e + ImagesResponse"

datatype 'f api_call = ImagesUpload 'f

text \<open>
  \<open>response.images[0]\<close> is undefined when the list is empty, and reading \<open>url\<close> of it
  raises a TypeError.
\<close>

definition uploadImage ::
  "('f, 'e) ApiService \<Rightarrow> 'f \<Rightarrow> 'f api_call list \<times> ('e failure + string)" where
  "uploadImage apiService file =
     ([ImagesUpload file],
      case images_upload apiService file of
        Inl e \<Rightarrow> Inl (Rejected e)
      | Inr response \<Rightarrow>
          (case images response of
             [] \<Rightarrow> Inl TypeError
           | img # _ \<Rightarrow> Inr (url img)))"

section \<open>Offers as Offer.create makes them\<close>


text \<open>
  Modelled from the spec: \<open>Offer.create\<close> is not part of the sources. The spec's data
  model has two types, fixed amount and percent; the currency must be present when
  the type is fixed amount and is absent otherwise; a construction that breaks this
  fails validation, with the error \<open>invalid\<close>. The other properties are held as they
  are given. An Offer constructed from a stored row is not new and its code is the
  loaded one.
\<close>

definition Offer_create_spec :: "'e \<Rightarrow> OfferProps \<Rightarrow> 'e + Offer" where
  "Offer_create_spec invalid props =
     (let offer =
            \<lparr>offer_id = props_id props,
             offer_name = ValueObject (props_name props),
             offer_code = ValueObject (props_code props),
             offer_displayTitle = ValueObject (props_display_title props),
             offer_displayDescription = ValueObject (props_display_description props),
             offer_type = ValueObject (props_type props),
             offer_amount = ValueObject (props_amount props),
             offer_cadence = ValueObject (props_cadence props),
             offer_currency = None,
             offer_duration = ValueObject \<lparr>duration_type = props_duration props,
                                            duration_months = props_duration_in_months props\<rparr>,
             offer_status = OfferStatus_create (props_status props),
             offer_tier = props_tier props,
             offer_redemptionCount = props_redemptionCount props,
             offer_stripe_coupon_id = props_stripe_coupon_id props,
             offer_isNew = False,
             offer_codeChanged = False,
             offer_oldCode = None\<rparr>
      in if props_type props = ''fixed'' then
           (case props_currency props of
              None \<Rightarrow> Inl invalid
            | Some c \<Rightarrow> Inr (offer\<lparr>offer_currency := Some (ValueObject c)\<rparr>))
         else if props_type props = ''percent'' then Inr offer
         else Inl invalid)"

section \<open>Queries that are one flat object\<close>

fun is_field :: "statement \<Rightarrow> bool" where
  "is_field (Statement _ _) = True"
| "is_field (Group _ _) = False"

text \<open>The value a flat query asks of \<open>status\<close>: that of its last \<open>status\<close> entry.\<close>

definition last_status :: "query \<Rightarrow> qvalue option" where
  "last_status q = map_of (rev (query_fields q)) ''status''"

section \<open>Callbacks of mapQuery\<close>

text \<open>
  A callback that answers a field with nothing or with one field, whose key is that
  of \<open>g\<close>, where \<open>g\<close> leaves the keys of the groups alone.
\<close>

definition renames :: "(qvalue \<Rightarrow> string \<Rightarrow> query option) \<Rightarrow> (string \<Rightarrow> string) \<Rightarrow> bool" where
  "renames fn g \<longleftrightarrow>
     (\<forall>v k. fn v k = None \<or> (\<exists>v'. fn v k = Some [Statement (g k) v'])) \<and>
     (\<forall>op. g (group_key op) = group_key op)"

text \<open>The keys of the entries of an object are the keys of its fields and of its groups.\<close>

definition key_space :: "(string \<times> qvalue) set \<Rightarrow> string set" where
  "key_space fs = fst ` fs \<union> range group_key"

text \<open>The fields a callback answers a field with.\<close>

definition answer :: "(qvalue \<Rightarrow> string \<Rightarrow> query option) \<Rightarrow> string \<times> qvalue \<Rightarrow> (string \<times> qvalue) set" where
  "answer fn p = (case fn (snd p) (fst p) of None \<Rightarrow> {} | Some fragment \<Rightarrow> set (query_fields fragment))"

section \<open>Example inputs\<close>

definition example_tier :: Tier where
  "example_tier = \<lparr>tier_id = ''tier_1'', tier_name = ''Gold''\<rparr>"

definition example_new_offer :: Offer where
  "example_new_offer =
     \<lparr>offer_id = ''offer_1'',
      offer_name = ValueObject ''Black Friday'',
      offer_code = ValueObject ''black-friday'',
      offer_displayTitle = ValueObject (Some ''Black Friday''),
      offer_displayDescription = ValueObject None,
      offer_type = ValueObject ''fixed'',
      offer_amount = ValueObject 500,
      offer_cadence = ValueObject ''month'',
      offer_currency = Some (ValueObject ''usd''),
      offer_duration = ValueObject \<lparr>duration_type = ''once'', duration_months = None\<rparr>,
      offer_status = ValueObject ''active'',
      offer_tier = example_tier,
      offer_redemptionCount = 0,
      offer_stripe_coupon_id = None,
      offer_isNew = True,
      offer_codeChanged = False,
      offer_oldCode = None\<rparr>"

definition example_coupon :: Coupon where
  "example_coupon =
     \<lparr>coupon_name = ''Black Friday'', coupon_duration = ''once'',
      coupon_duration_in_months = None, coupon_percent_off = None,
      coupon_amount_off = Some 500, coupon_currency = Some ''usd''\<rparr>"

definition example_existing_offer :: Offer where
  "example_existing_offer =
     example_new_offer\<lparr>offer_stripe_coupon_id := Some ''coupon_1'', offer_isNew := False,
                       offer_codeChanged := True, offer_oldCode := Some ''cyber-monday''\<rparr>"

definition example_unchanged_offer :: Offer where
  "example_unchanged_offer =
     example_existing_offer\<lparr>offer_codeChanged := False, offer_oldCode := None\<rparr>"

definition example_json :: OfferJSON where
  "example_json =
     \<lparr>json_id = ''offer_1'', json_name = ''Black Friday'', json_code = ''black-friday'',
      json_portal_title = Some ''Black Friday'', json_portal_description = None,
      json_discount_type = ''amount'', json_discount_amount = 500, json_interval = ''month'',
      json_currency = Some ''usd'', json_duration = ''once'', json_duration_in_months = None,
      json_stripe_coupon_id = Some ''coupon_1'', json_active = True,
      json_product = Some \<lparr>product_id = ''tier_1'', product_name = ''Gold''\<rparr>\<rparr>"



definition example_recoded_offer :: Offer where
  "example_recoded_offer =
     example_new_offer\<lparr>offer_codeChanged := True, offer_oldCode := Some ''cyber-monday''\<rparr>"

text \<open>An example storage layer: \<open>findOne\<close> over a list of rows.\<close>

definition find_row :: "OfferJSON list \<Rightarrow> criteria \<Rightarrow> OfferJSON option" where
  "find_row rows c =
     find (\<lambda>r. case c of ByName n \<Rightarrow> json_name r = n
                        | ByCode k \<Rightarrow> json_code r = k
                        | ById i \<Rightarrow> json_id r = i) rows"

definition example_repo :: "string OfferRepository" where
  "example_repo =
     \<lparr>OfferModel_findOne = (\<lambda>c opts. Inr (find_row [example_json] c)),
      OfferModel_findAll = (\<lambda>opts. Inr [example_json]),
      OfferModel_add = (\<lambda>d opts. Inr ()),
      OfferModel_edit = (\<lambda>d opts. Inr ()),
      OfferRedemptionModel_count = (\<lambda>i t. Inr 3),
      stripeAPIService_createCoupon = (\<lambda>c. Inr \<lparr>couponData_id = ''coupon_1''\<rparr>),
      Offer_create = Offer_create_spec ''invalid offer''\<rparr>"

definition example_repo_stripe_down :: "string OfferRepository" where
  "example_repo_stripe_down =
     example_repo\<lparr>stripeAPIService_createCoupon := (\<lambda>c. Inl ''stripe is down'')\<rparr>"

definition example_filter :: query where
  "example_filter =
     [Statement ''name'' (QString ''Black Friday''), Statement ''status'' (QString ''archived'')]"

definition example_filter_grouped :: query where
  "example_filter_grouped =
     [Group Or [[Statement ''name'' (QString ''Black Friday'')],
                [Statement ''code'' (QString ''black-friday''),
                 Statement ''status'' (QString ''active'')]],
      Statement ''status'' (QOperators [(''$ne'', QString ''archived'')])]"

definition example_options :: ListOptions where
  "example_options = \<lparr>transacting = None, filter_q = Some example_filter\<rparr>"

definition example_images :: ImagesResponse where
  "example_images =
     \<lparr>images = [\<lparr>url = ''https://example.com/content/images/logo.png''\<rparr>,
                \<lparr>url = ''https://example.com/content/images/logo-1.png''\<rparr>]\<rparr>"

definition example_api :: "(string, string) ApiService" where
  "example_api = \<lparr>images_upload = (\<lambda>file. Inr example_images)\<rparr>"

definition example_api_no_images :: "(string, string) ApiService" where
  "example_api_no_images = \<lparr>images_upload = (\<lambda>file. Inr \<lparr>images = []\<rparr>)\<rparr>"

definition example_api_down :: "(string, string) ApiService" where
  "example_api_down = \<lparr>images_upload = (\<lambda>file. Inl ''413 Payload Too Large'')\<rparr>"

section \<open>save: a new offer\<close>

text \<open>
  The coupon parameters of an offer are built whenever the offer is a percent offer or
  has a currency, which the data model asks of every fixed-amount offer.
\<close>

lemma save_coupon_defined:
  assumes "val (offer_type offer) = ''percent'' \<or> offer_currency offer \<noteq> None"
  shows "\<exists>coupon. save_coupon offer = Inr coupon"
  using assms by (auto simp: save_coupon_def Let_def split: option.splits)

text \<open>
  Claim C1. For every new offer that is a percent offer or has a currency, \<open>save\<close>
  builds the parameters of a coupon carrying the offer's name and duration, and
  whenever the coupon-creation call for them resolves, \<open>save\<close> makes, apart from the
  dispatch of the event, exactly two calls: the coupon-creation call, then the insert
  of the row; the row inserted is \<open>data\<close> with \<open>stripe_coupon_id\<close> set to the id the
  coupon call resolved to, and \<open>save\<close> resolves or rejects as the insert does.
\<close>

theorem save_new_offer:
  assumes "offer_isNew offer"
    and "val (offer_type offer) = ''percent'' \<or> offer_currency offer \<noteq> None"
  shows "\<exists>coupon. save_coupon offer = (Inr coupon :: 'e failure + Coupon)
       \<and> coupon_name coupon = val (offer_name offer)
       \<and> coupon_duration coupon = duration_type (val (offer_duration offer))
       \<and> (\<forall>couponData.
            stripeAPIService_createCoupon (repo :: 'e OfferRepository) coupon = Inr couponData \<longrightarrow>
              filter (\<lambda>c. \<not> is_Dispatch c) (fst (save repo offer options)) =
                [CreateCoupon coupon,
                 Add ((save_data offer)\<lparr>data_stripe_coupon_id := Some (couponData_id couponData)\<rparr>)
                   options]
              \<and> snd (save repo offer options) =
                  await (OfferModel_add repo
                    ((save_data offer)\<lparr>data_stripe_coupon_id := Some (couponData_id couponData)\<rparr>)
                    options))"
proof -
  from assms(2) obtain coupon where coupon: "save_coupon offer = (Inr coupon :: 'e failure + Coupon)"
    using save_coupon_defined [of offer] by blast
  have name: "coupon_name coupon = val (offer_name offer)"
    and duration: "coupon_duration coupon = duration_type (val (offer_duration offer))"
    using coupon by (auto simp: save_coupon_def Let_def split: if_splits option.splits)
  have "filter (\<lambda>c. \<not> is_Dispatch c) (fst (save repo offer options)) =
          [CreateCoupon coupon,
           Add ((save_data offer)\<lparr>data_stripe_coupon_id := Some (couponData_id couponData)\<rparr>) options]
        \<and> snd (save repo offer options) =
            await (OfferModel_add repo
              ((save_data offer)\<lparr>data_stripe_coupon_id := Some (couponData_id couponData)\<rparr>) options)"
    if "stripeAPIService_createCoupon repo coupon = Inr couponData" for couponData
    using assms(1) coupon that by (simp add: save_def save_dispatch_def Let_def)
  with coupon name duration show ?thesis
    by blast
qed

theorem save_new_offer_witness:
  "offer_isNew example_new_offer
   \<and> offer_currency example_new_offer = Some (ValueObject ''usd'')
   \<and> save_coupon example_new_offer = (Inr example_coupon :: string failure + Coupon)
   \<and> stripeAPIService_createCoupon example_repo example_coupon = Inr \<lparr>couponData_id = ''coupon_1''\<rparr>
   \<and> filter (\<lambda>c. \<not> is_Dispatch c) (fst (save example_repo example_new_offer None)) =
        [CreateCoupon example_coupon,
         Add ((save_data example_new_offer)\<lparr>data_stripe_coupon_id := Some ''coupon_1''\<rparr>) None]
   \<and> snd (save example_repo example_new_offer None) = Inr ()"
proof -
  have new: "offer_isNew example_new_offer"
    by (simp add: example_new_offer_def)
  have currency: "offer_currency example_new_offer = Some (ValueObject ''usd'')"
    by (simp add: example_new_offer_def)
  then have input: "val (offer_type example_new_offer) = ''percent'' \<or> offer_currency example_new_offer \<noteq> None"
    by simp
  have coupon: "save_coupon example_new_offer = (Inr example_coupon :: string failure + Coupon)"
    by (simp add: save_coupon_def example_new_offer_def example_coupon_def)
  have created: "stripeAPIService_createCoupon example_repo example_coupon =
      Inr \<lparr>couponData_id = ''coupon_1''\<rparr>"
    by (simp add: example_repo_def)
  have added: "OfferModel_add example_repo d None = Inr ()" for d
    by (simp add: example_repo_def)
  from save_new_offer [OF new input, of example_repo None]
  have "filter (\<lambda>c. \<not> is_Dispatch c) (fst (save example_repo example_new_offer None)) =
          [CreateCoupon example_coupon,
           Add ((save_data example_new_offer)\<lparr>data_stripe_coupon_id := Some ''coupon_1''\<rparr>) None]
        \<and> snd (save example_repo example_new_offer None) = Inr ()"
    using coupon created by (auto simp: added await_def)
  with new currency coupon created show ?thesis
    by simp
qed

text \<open>
  Claim C6. For a new offer whose coupon-creation call rejects with an error, \<open>save\<close>
  makes no insert and no update, and rejects with that same error.
\<close>

theorem save_coupon_rejected:
  assumes "offer_isNew offer"
    and "save_coupon offer = (Inr coupon :: 'e failure + Coupon)"
    and "stripeAPIService_createCoupon (repo :: 'e OfferRepository) coupon = Inl e"
  shows "filter (\<lambda>c. is_Add c \<or> is_Edit c) (fst (save repo offer options)) = []
       \<and> filter (\<lambda>c. \<not> is_Dispatch c) (fst (save repo offer options)) = [CreateCoupon coupon]
       \<and> snd (save repo offer options) = Inl (Rejected e)"
  using assms by (simp add: save_def save_dispatch_def Let_def)

theorem save_coupon_rejected_witness:
  "offer_isNew example_new_offer
   \<and> save_coupon example_new_offer = (Inr example_coupon :: string failure + Coupon)
   \<and> stripeAPIService_createCoupon example_repo_stripe_down example_coupon = Inl ''stripe is down''
   \<and> filter (\<lambda>c. is_Add c \<or> is_Edit c) (fst (save example_repo_stripe_down example_new_offer None)) = []
   \<and> snd (save example_repo_stripe_down example_new_offer None) = Inl (Rejected ''stripe is down'')"
proof -
  have new: "offer_isNew example_new_offer"
    by (simp add: example_new_offer_def)
  have coupon: "save_coupon example_new_offer = (Inr example_coupon :: string failure + Coupon)"
    by (simp add: save_coupon_def example_new_offer_def example_coupon_def)
  have down: "stripeAPIService_createCoupon example_repo_stripe_down example_coupon =
      Inl ''stripe is down''"
    by (simp add: example_repo_stripe_down_def)
  show ?thesis
    using save_coupon_rejected [OF new coupon down, of None] new coupon down
    by simp
qed

section \<open>save: an existing offer\<close>

text \<open>
  Claim C2. For an offer that is not new, \<open>save\<close> makes, apart from the dispatch of
  the event, exactly one call, the update of the row with \<open>data\<close>, and so no call to
  the payment provider; it resolves or rejects as the update does. \<open>data\<close> has no
  \<open>stripe_coupon_id\<close>, and no update \<open>save\<close> ever makes carries one: the field is
  written by the insert of a new offer only.
\<close>

theorem save_existing_offer:
  "(\<not> offer_isNew offer \<longrightarrow>
      filter (\<lambda>c. \<not> is_Dispatch c) (fst (save repo offer options)) =
        [Edit (save_data offer) (edit_options options (offer_id offer))]
      \<and> filter is_CreateCoupon (fst (save repo offer options)) = []
      \<and> snd (save repo offer options) =
          await (OfferModel_edit repo (save_data offer) (edit_options options (offer_id offer))))
   \<and> data_stripe_coupon_id (save_data offer) = None
   \<and> (Edit d opts \<in> set (fst (save repo offer options)) \<longrightarrow> data_stripe_coupon_id d = None)"
  by (auto simp: save_def save_dispatch_def save_data_def Let_def split: sum.splits if_splits)

theorem save_existing_offer_witness:
  "\<not> offer_isNew example_existing_offer
   \<and> filter (\<lambda>c. \<not> is_Dispatch c) (fst (save example_repo example_existing_offer None)) =
       [Edit (save_data example_existing_offer) \<lparr>edit_transacting = None, edit_id = ''offer_1''\<rparr>]
   \<and> Edit (save_data example_existing_offer) \<lparr>edit_transacting = None, edit_id = ''offer_1''\<rparr>
       \<in> set (fst (save example_repo example_existing_offer None))
   \<and> data_stripe_coupon_id (save_data example_existing_offer) = None
   \<and> snd (save example_repo example_existing_offer None) = Inr ()"
proof -
  have old: "\<not> offer_isNew example_existing_offer"
    by (simp add: example_existing_offer_def)
  have opts: "edit_options None (offer_id example_existing_offer) =
      \<lparr>edit_transacting = None, edit_id = ''offer_1''\<rparr>"
    by (simp add: edit_options_def example_existing_offer_def example_new_offer_def)
  have call: "Edit (save_data example_existing_offer) \<lparr>edit_transacting = None, edit_id = ''offer_1''\<rparr>
       \<in> set (fst (save example_repo example_existing_offer None))"
    by (simp add: save_def Let_def old opts [symmetric] save_data_def)
  show ?thesis
    using save_existing_offer [of example_existing_offer example_repo None
        "save_data example_existing_offer" "\<lparr>edit_transacting = None, edit_id = ''offer_1''\<rparr>"]
      old opts call
    by (simp add: example_repo_def await_def)
qed

section \<open>save: the code-change event\<close>

text \<open>
  Claim C3, as amended. \<open>save\<close> dispatches one code-change event when the offer is
  new or its code changed, and none otherwise; the payload is the offer id,
  \<open>offer.oldCode\<close> as the previous code and the offer's code. Every dispatch comes
  before every other call of \<open>save\<close>. The previous code of a dispatched event is the
  old code of the offer as it is, whether or not the offer is new.
\<close>

theorem save_code_change_event:
  "filter is_Dispatch (fst (save repo offer options)) =
     (if offer_isNew offer \<or> offer_codeChanged offer
      then [Dispatch \<lparr>event_offerId = offer_id offer, event_previousCode = offer_oldCode offer,
                      event_currentCode = offer_code offer\<rparr>]
      else [])
   \<and> takeWhile is_Dispatch (fst (save repo offer options)) =
       filter is_Dispatch (fst (save repo offer options))
   \<and> (\<forall>ev. Dispatch ev \<in> set (fst (save repo offer options)) \<longrightarrow>
        event_previousCode ev = offer_oldCode offer)"
  by (auto simp: save_def save_dispatch_def Let_def OfferCodeChangeEvent_create_def
      split: sum.splits if_splits)

theorem save_code_change_event_witness:
  "Dispatch \<lparr>event_offerId = ''offer_1'', event_previousCode = Some ''cyber-monday'',
             event_currentCode = ValueObject ''black-friday''\<rparr>
     \<in> set (fst (save example_repo example_existing_offer None))
   \<and> offer_oldCode example_existing_offer = Some ''cyber-monday''
   \<and> filter is_Dispatch (fst (save example_repo example_new_offer None)) =
       [Dispatch \<lparr>event_offerId = ''offer_1'', event_previousCode = None,
                  event_currentCode = ValueObject ''black-friday''\<rparr>]
   \<and> filter is_Dispatch (fst (save example_repo example_existing_offer None)) =
       [Dispatch \<lparr>event_offerId = ''offer_1'', event_previousCode = Some ''cyber-monday'',
                  event_currentCode = ValueObject ''black-friday''\<rparr>]
   \<and> filter is_Dispatch (fst (save example_repo example_unchanged_offer None)) = []"
proof -
  have sent: "Dispatch \<lparr>event_offerId = ''offer_1'', event_previousCode = Some ''cyber-monday'',
             event_currentCode = ValueObject ''black-friday''\<rparr>
     \<in> set (fst (save example_repo example_existing_offer None))"
    by (simp add: save_def save_dispatch_def Let_def OfferCodeChangeEvent_create_def
        example_existing_offer_def example_new_offer_def)
  show ?thesis
    using save_code_change_event [of example_repo example_new_offer None]
          save_code_change_event [of example_repo example_existing_offer None]
          save_code_change_event [of example_repo example_unchanged_offer None]
          sent
    by (simp add: example_new_offer_def example_existing_offer_def example_unchanged_offer_def)
qed

text \<open>
  The claim as stated fails on a new offer whose code was changed before its first
  save: the offer is new and the event carries a previous code.
\<close>

theorem save_code_change_event_counterexample:
  "offer_isNew example_recoded_offer
   \<and> filter is_Dispatch (fst (save example_repo example_recoded_offer None)) =
       [Dispatch \<lparr>event_offerId = ''offer_1'', event_previousCode = Some ''cyber-monday'',
                  event_currentCode = ValueObject ''black-friday''\<rparr>]"
  by (simp add: save_def save_dispatch_def save_coupon_def Let_def OfferCodeChangeEvent_create_def
      example_recoded_offer_def example_new_offer_def example_repo_def)

section \<open>save: the tier\<close>

text \<open>
  Claim C7, as amended. \<open>save\<close> writes one value derived from the tier and no other:
  the row data of an offer with another tier differs in \<open>product_id\<close> only, which is
  the id of the tier, and the calls and the result of \<open>save\<close> are the same whatever
  the tier's name. The row data is what \<open>save\<close> hands to the storage layer: the
  update of an offer that is not new carries it, every update and every insert
  \<open>save\<close> makes carries the id of the tier as \<open>product_id\<close>, and a new offer whose
  coupon is created is inserted.
\<close>

theorem save_tier:
  "save_data (offer\<lparr>offer_tier := t\<rparr>) = (save_data offer)\<lparr>data_product_id := tier_id t\<rparr>
   \<and> data_product_id (save_data offer) = tier_id (offer_tier offer)
   \<and> save repo (offer\<lparr>offer_tier := \<lparr>tier_id = tier_id (offer_tier offer), tier_name = n\<rparr>\<rparr>) options =
       save repo offer options
   \<and> (\<not> offer_isNew offer \<longrightarrow>
        filter (\<lambda>c. is_Add c \<or> is_Edit c) (fst (save repo offer options)) =
          [Edit (save_data offer) (edit_options options (offer_id offer))])
   \<and> (offer_isNew offer
        \<and> (val (offer_type offer) = ''percent'' \<or> offer_currency offer \<noteq> None)
        \<and> (\<forall>coupon. \<exists>couponData. stripeAPIService_createCoupon repo coupon = Inr couponData) \<longrightarrow>
        (\<exists>d. filter (\<lambda>c. is_Add c \<or> is_Edit c) (fst (save repo offer options)) = [Add d options]))
   \<and> (\<forall>d opts eopts. Add d opts \<in> set (fst (save repo offer options))
          \<or> Edit d eopts \<in> set (fst (save repo offer options)) \<longrightarrow>
        data_product_id d = tier_id (offer_tier offer)
        \<and> d\<lparr>data_stripe_coupon_id := None\<rparr> = save_data offer)"
proof -
  let ?offer = "offer\<lparr>offer_tier := \<lparr>tier_id = tier_id (offer_tier offer), tier_name = n\<rparr>\<rparr>"
  have new: "offer_isNew ?offer = offer_isNew offer"
    by simp
  have data: "save_data ?offer = save_data offer"
    by (simp add: save_data_def)
  have dispatch: "save_dispatch ?offer = save_dispatch offer"
    by (simp add: save_dispatch_def)
  have coupon: "(save_coupon ?offer :: 'a failure + Coupon) = save_coupon offer"
    by (auto simp: save_coupon_def Let_def split: option.splits)
  have name: "save repo ?offer options = save repo offer options"
    unfolding save_def new data dispatch coupon by (rule refl)
  have one: "save_data (offer\<lparr>offer_tier := t\<rparr>) = (save_data offer)\<lparr>data_product_id := tier_id t\<rparr>"
    by (simp add: save_data_def)
  have product: "data_product_id (save_data offer) = tier_id (offer_tier offer)"
    by (simp add: save_data_def)
  have update: "filter (\<lambda>c. is_Add c \<or> is_Edit c) (fst (save repo offer options)) =
          [Edit (save_data offer) (edit_options options (offer_id offer))]"
    if "\<not> offer_isNew offer"
    using that by (simp add: save_def save_dispatch_def save_data_def Let_def)
  have insert: "\<exists>d. filter (\<lambda>c. is_Add c \<or> is_Edit c) (fst (save repo offer options)) = [Add d options]"
    if isNew: "offer_isNew offer"
      and input: "val (offer_type offer) = ''percent'' \<or> offer_currency offer \<noteq> None"
      and resolves: "\<forall>coupon. \<exists>couponData. stripeAPIService_createCoupon repo coupon = Inr couponData"
  proof -
    obtain coupon where c: "save_coupon offer = (Inr coupon :: 'a failure + Coupon)"
      using save_coupon_defined [OF input] by blast
    obtain couponData where "stripeAPIService_createCoupon repo coupon = Inr couponData"
      using resolves by blast
    with c isNew show ?thesis
      by (simp add: save_def save_dispatch_def Let_def)
  qed
  have carried: "data_product_id d = tier_id (offer_tier offer)
        \<and> d\<lparr>data_stripe_coupon_id := None\<rparr> = save_data offer"
    if "Add d opts \<in> set (fst (save repo offer options))
          \<or> Edit d eopts \<in> set (fst (save repo offer options))" for d opts eopts
    using that
    by (auto simp: save_def save_dispatch_def save_data_def Let_def split: sum.splits if_splits)
  from one product name update insert carried show ?thesis
    by blast
qed

theorem save_tier_witness:
  "\<not> offer_isNew example_existing_offer
   \<and> filter (\<lambda>c. is_Add c \<or> is_Edit c) (fst (save example_repo example_existing_offer None)) =
       [Edit (save_data example_existing_offer) \<lparr>edit_transacting = None, edit_id = ''offer_1''\<rparr>]
   \<and> data_product_id (save_data example_existing_offer) = ''tier_1''
   \<and> offer_isNew example_new_offer
   \<and> offer_currency example_new_offer = Some (ValueObject ''usd'')
   \<and> (\<forall>coupon. \<exists>couponData. stripeAPIService_createCoupon example_repo coupon = Inr couponData)
   \<and> Add ((save_data example_new_offer)\<lparr>data_stripe_coupon_id := Some ''coupon_1''\<rparr>) None
       \<in> set (fst (save example_repo example_new_offer None))
   \<and> data_product_id ((save_data example_new_offer)\<lparr>data_stripe_coupon_id := Some ''coupon_1''\<rparr>) =
       ''tier_1''"
proof -
  have old: "\<not> offer_isNew example_existing_offer"
    by (simp add: example_existing_offer_def)
  have new: "offer_isNew example_new_offer"
    and currency: "offer_currency example_new_offer = Some (ValueObject ''usd'')"
    by (simp_all add: example_new_offer_def)
  have resolves: "\<forall>coupon. \<exists>couponData. stripeAPIService_createCoupon example_repo coupon = Inr couponData"
    by (simp add: example_repo_def)
  have opts: "edit_options None (offer_id example_existing_offer) =
      \<lparr>edit_transacting = None, edit_id = ''offer_1''\<rparr>"
    by (simp add: edit_options_def example_existing_offer_def example_new_offer_def)
  have added: "Add ((save_data example_new_offer)\<lparr>data_stripe_coupon_id := Some ''coupon_1''\<rparr>) None
       \<in> set (fst (save example_repo example_new_offer None))"
    by (simp add: save_def save_coupon_def Let_def example_new_offer_def example_repo_def)
  have tier: "tier_id (offer_tier example_existing_offer) = ''tier_1''"
    "tier_id (offer_tier example_new_offer) = ''tier_1''"
    by (simp_all add: example_existing_offer_def example_new_offer_def example_tier_def)
  show ?thesis
    using save_tier [where offer = example_existing_offer and t = example_tier
            and repo = example_repo and n = "''Gold''" and options = None]
          save_tier [where offer = example_new_offer and t = example_tier
            and repo = example_repo and n = "''Gold''" and options = None]
          old new currency resolves opts added tier
    by auto
qed

text \<open>
  The claim as stated fails: the row data of the example offer carries the id of its
  tier, and the update \<open>save\<close> makes changes with the tier.
\<close>

theorem save_tier_counterexample:
  "data_product_id (save_data example_existing_offer) = ''tier_1''
   \<and> filter is_Edit (fst (save example_repo example_existing_offer None)) \<noteq>
     filter is_Edit (fst (save example_repo
        (example_existing_offer\<lparr>offer_tier := \<lparr>tier_id = ''tier_2'', tier_name = ''Gold''\<rparr>\<rparr>) None))"
  by (simp add: save_def save_data_def save_dispatch_def Let_def example_existing_offer_def
      example_new_offer_def example_tier_def)

section \<open>The round trip of a row\<close>




section \<open>existsByName and existsByCode: not found is false\<close>

text \<open>
  Claim C8. \<open>existsByName\<close> and \<open>existsByCode\<close> make one call, the \<open>findOne\<close> for the
  name or the code, and no call that writes. When \<open>findOne\<close> resolves to no row they
  resolve to false, and when it resolves to a row they resolve to true.
\<close>

theorem existsBy_boolean:
  "fst (existsByName repo name options) = [FindOne (ByName name) options]
   \<and> fst (existsByCode repo code options) = [FindOne (ByCode code) options]
   \<and> (OfferModel_findOne repo (ByName name) options = Inr None \<longrightarrow>
        snd (existsByName repo name options) = Inr False)
   \<and> (OfferModel_findOne repo (ByName name) options = Inr (Some model) \<longrightarrow>
        snd (existsByName repo name options) = Inr True)
   \<and> (OfferModel_findOne repo (ByCode code) options = Inr None \<longrightarrow>
        snd (existsByCode repo code options) = Inr False)
   \<and> (OfferModel_findOne repo (ByCode code) options = Inr (Some model') \<longrightarrow>
        snd (existsByCode repo code options) = Inr True)"
  by (simp add: existsByName_def existsByCode_def)

theorem existsBy_boolean_witness:
  "OfferModel_findOne example_repo (ByName ''Cyber Monday'') None = Inr None
   \<and> existsByName example_repo ''Cyber Monday'' None =
       ([FindOne (ByName ''Cyber Monday'') None], Inr False)
   \<and> OfferModel_findOne example_repo (ByName ''Black Friday'') None = Inr (Some example_json)
   \<and> existsByName example_repo ''Black Friday'' None =
       ([FindOne (ByName ''Black Friday'') None], Inr True)
   \<and> OfferModel_findOne example_repo (ByCode ''cyber-monday'') None = Inr None
   \<and> existsByCode example_repo ''cyber-monday'' None =
       ([FindOne (ByCode ''cyber-monday'') None], Inr False)
   \<and> OfferModel_findOne example_repo (ByCode ''black-friday'') None = Inr (Some example_json)
   \<and> existsByCode example_repo ''black-friday'' None =
       ([FindOne (ByCode ''black-friday'') None], Inr True)"
proof -
  have absent_name: "OfferModel_findOne example_repo (ByName ''Cyber Monday'') None = Inr None"
    and present_name:
      "OfferModel_findOne example_repo (ByName ''Black Friday'') None = Inr (Some example_json)"
    and absent_code: "OfferModel_findOne example_repo (ByCode ''cyber-monday'') None = Inr None"
    and present_code:
      "OfferModel_findOne example_repo (ByCode ''black-friday'') None = Inr (Some example_json)"
    by (simp_all add: example_repo_def find_row_def example_json_def)
  show ?thesis
    using existsBy_boolean [of example_repo "''Cyber Monday''" None "''cyber-monday''"
            example_json example_json]
          existsBy_boolean [of example_repo "''Black Friday''" None "''black-friday''"
            example_json example_json]
          absent_name present_name absent_code present_code
    by (simp add: prod_eq_iff)
qed

section \<open>uploadImage\<close>

text \<open>
  Claim C9. \<open>uploadImage\<close> makes one call, the upload of the file. When the upload
  rejects with an error, \<open>uploadImage\<close> rejects with that same error; when it resolves
  to a response with a first image, \<open>uploadImage\<close> resolves to the url of that image.
\<close>

theorem uploadImage_first_url:
  "fst (uploadImage apiService file) = [ImagesUpload file]
   \<and> (images_upload apiService file = Inl e \<longrightarrow>
        snd (uploadImage apiService file) = Inl (Rejected e))
   \<and> (images_upload apiService file = Inr response \<and> images response = img # rest \<longrightarrow>
        snd (uploadImage apiService file) = Inr (url img))"
  by (simp add: uploadImage_def)

theorem uploadImage_first_url_witness:
  "images_upload example_api_down ''logo.png'' = Inl ''413 Payload Too Large''
   \<and> uploadImage example_api_down ''logo.png'' =
       ([ImagesUpload ''logo.png''], Inl (Rejected ''413 Payload Too Large''))
   \<and> images_upload example_api ''logo.png'' = Inr example_images
   \<and> images example_images =
       [\<lparr>url = ''https://example.com/content/images/logo.png''\<rparr>,
        \<lparr>url = ''https://example.com/content/images/logo-1.png''\<rparr>]
   \<and> uploadImage example_api ''logo.png'' =
       ([ImagesUpload ''logo.png''], Inr ''https://example.com/content/images/logo.png'')"
proof -
  have down: "images_upload example_api_down ''logo.png'' = Inl ''413 Payload Too Large''"
    by (simp add: example_api_down_def)
  have up: "images_upload example_api ''logo.png'' = Inr example_images"
    by (simp add: example_api_def)
  have imgs: "images example_images =
       [\<lparr>url = ''https://example.com/content/images/logo.png''\<rparr>,
        \<lparr>url = ''https://example.com/content/images/logo-1.png''\<rparr>]"
    by (simp add: example_images_def)
  show ?thesis
    using uploadImage_first_url [of example_api_down "''logo.png''" "''413 Payload Too Large''"]
          uploadImage_first_url [of example_api "''logo.png''" _ example_images
            "\<lparr>url = ''https://example.com/content/images/logo.png''\<rparr>"
            "[\<lparr>url = ''https://example.com/content/images/logo-1.png''\<rparr>]"]
          down up imgs
    by (simp add: prod_eq_iff)
qed

text \<open>
  Claim C10. When the upload resolves to a response with no image, \<open>uploadImage\<close>
  rejects with a TypeError, having made its one call; it resolves to a url only when
  the response has a first image, and then to the url of that image.
\<close>

theorem uploadImage_no_image:
  "(images_upload apiService file = Inr response \<and> images response = [] \<longrightarrow>
        uploadImage apiService file = ([ImagesUpload file], Inl TypeError))
   \<and> (snd (uploadImage apiService file) = Inr u \<longrightarrow>
        (\<exists>response img rest. images_upload apiService file = Inr response
            \<and> images response = img # rest \<and> u = url img))"
  by (auto simp: uploadImage_def split: sum.splits list.splits)

theorem uploadImage_no_image_witness:
  "images_upload example_api_no_images ''logo.png'' = Inr \<lparr>images = []\<rparr>
   \<and> uploadImage example_api_no_images ''logo.png'' = ([ImagesUpload ''logo.png''], Inl TypeError)
   \<and> snd (uploadImage example_api ''logo.png'') = Inr ''https://example.com/content/images/logo.png''
   \<and> (\<exists>response img rest. images_upload example_api ''logo.png'' = Inr response
         \<and> images response = img # rest
         \<and> ''https://example.com/content/images/logo.png'' = url img)"
proof -
  have none: "images_upload example_api_no_images ''logo.png'' = Inr \<lparr>images = []\<rparr>"
    by (simp add: example_api_no_images_def)
  have some: "snd (uploadImage example_api ''logo.png'') =
      Inr ''https://example.com/content/images/logo.png''"
    by (simp add: uploadImage_def example_api_def example_images_def)
  show ?thesis
    using uploadImage_no_image [of example_api_no_images "''logo.png''" "\<lparr>images = []\<rparr>"]
          uploadImage_no_image [of example_api "''logo.png''" _
            "''https://example.com/content/images/logo.png''"]
          none some
    by simp
qed

section \<open>getAll: the filter\<close>

text \<open>Merging fragments whose keys differ appends them.\<close>

lemma assign_entry_fresh:
  "statement_key s \<notin> statement_key ` set m \<Longrightarrow> assign_entry s m = m @ [s]"
  by (induction m) auto

lemma Object_assign_fresh:
  "distinct (map statement_key (m @ f)) \<Longrightarrow> Object_assign m f = m @ f"
proof (induction f arbitrary: m)
  case Nil
  then show ?case by (simp add: Object_assign_def)
next
  case (Cons s f)
  from Cons.prems have fresh: "statement_key s \<notin> statement_key ` set m"
    by auto
  from Cons.prems have "distinct (map statement_key ((m @ [s]) @ f))"
    by auto
  then have "Object_assign (m @ [s]) f = (m @ [s]) @ f"
    by (rule Cons.IH)
  then show ?case
    by (simp add: Object_assign_def assign_entry_fresh [OF fresh])
qed

lemma foldl_Object_assign_fresh:
  "distinct (map statement_key (m @ concat fs)) \<Longrightarrow> foldl Object_assign m fs = m @ concat fs"
proof (induction fs arbitrary: m)
  case Nil
  then show ?case by simp
next
  case (Cons f fs)
  from Cons.prems have "distinct (map statement_key (m @ f))"
    by auto
  then have step: "Object_assign m f = m @ f"
    by (rule Object_assign_fresh)
  from Cons.prems have "distinct (map statement_key ((m @ f) @ concat fs))"
    by simp
  then have "foldl Object_assign (m @ f) fs = (m @ f) @ concat fs"
    by (rule Cons.IH)
  then show ?case
    by (simp add: step)
qed

lemma assign_all_fresh:
  "distinct (map statement_key (concat fs)) \<Longrightarrow> assign_all fs = concat fs"
  using foldl_Object_assign_fresh [of "[]" fs] by (simp add: assign_all_def)

lemma mapStatement_keys:
  assumes "renames fn g"
  shows "mapStatement fn s = [] \<or> (\<exists>t. mapStatement fn s = [t] \<and> statement_key t = g (statement_key s))"
proof (cases s)
  case (Statement k v)
  from assms have "fn v k = None \<or> (\<exists>v'. fn v k = Some [Statement (g k) v'])"
    by (simp add: renames_def)
  with Statement show ?thesis
    by auto
next
  case (Group op qs)
  with assms show ?thesis
    by (auto simp: renames_def split: list.splits)
qed

lemma distinct_fragments:
  assumes "distinct (map statement_key q)"
    and "inj_on g (statement_key ` set q)"
    and "\<And>s. s \<in> set q \<Longrightarrow> fr s = [] \<or> (\<exists>t. fr s = [t] \<and> statement_key t = g (statement_key s))"
  shows "distinct (map statement_key (concat (map fr q)))
       \<and> statement_key ` set (concat (map fr q)) \<subseteq> g ` statement_key ` set q"
  using assms
proof (induction q)
  case Nil
  then show ?case by simp
next
  case (Cons s q)
  have IH: "distinct (map statement_key (concat (map fr q)))
       \<and> statement_key ` set (concat (map fr q)) \<subseteq> g ` statement_key ` set q"
    using Cons.prems by (intro Cons.IH) (auto simp: inj_on_def)
  have fresh: "g (statement_key s) \<notin> g ` statement_key ` set q"
  proof
    assume "g (statement_key s) \<in> g ` statement_key ` set q"
    then obtain t where t: "t \<in> set q" and "g (statement_key s) = g (statement_key t)"
      by auto
    with Cons.prems(2) have "statement_key s = statement_key t"
      by (auto simp: inj_on_def)
    with t Cons.prems(1) show False
      by auto
  qed
  from Cons.prems(3) [of s]
  consider "fr s = []" | t where "fr s = [t]" and "statement_key t = g (statement_key s)"
    by auto
  then show ?case
  proof cases
    case 1
    with IH show ?thesis by auto
  next
    case 2
    with IH fresh show ?thesis by auto
  qed
qed

lemma mapQuery_concat:
  assumes "renames fn g"
    and "distinct (map statement_key q)"
    and "inj_on g (statement_key ` set q)"
  shows "mapQuery q fn = concat (map (mapStatement fn) q)"
    and "distinct (map statement_key (mapQuery q fn))"
proof -
  have d: "distinct (map statement_key (concat (map (mapStatement fn) q)))"
    using distinct_fragments [OF assms(2,3), of "mapStatement fn"] mapStatement_keys [OF assms(1)]
    by blast
  then show "mapQuery q fn = concat (map (mapStatement fn) q)"
    by (simp add: mapQuery_def assign_all_fresh)
  with d show "distinct (map statement_key (mapQuery q fn))"
    by simp
qed

lemma set_query_fields: "set (query_fields q) = (\<Union>s\<in>set q. set (statement_fields s))"
  by (simp add: query_fields_def)

lemma set_statement_fields_Group:
  "set (statement_fields (Group op qs)) = (\<Union>q\<in>set qs. set (query_fields q))"
  by (auto simp: query_fields_def)

lemma statement_key_space:
  "s \<in> set q \<Longrightarrow> statement_key s \<in> key_space (set (query_fields q))"
  by (cases s) (force simp: key_space_def set_query_fields)+

lemma key_space_mono: "A \<subseteq> B \<Longrightarrow> key_space A \<subseteq> key_space B"
  by (auto simp: key_space_def)

lemma range_group_key: "range group_key = {''$and'', ''$or''}"
proof
  show "range group_key \<subseteq> {''$and'', ''$or''}"
  proof
    fix k assume "k \<in> range group_key"
    then obtain op where "k = group_key op"
      by blast
    then show "k \<in> {''$and'', ''$or''}"
      by (cases op) simp_all
  qed
  have "group_key And \<in> range group_key" and "group_key Or \<in> range group_key"
    by blast+
  then show "{''$and'', ''$or''} \<subseteq> range group_key"
    by simp
qed

lemma group_key_not_status: "group_key op \<noteq> ''status''"
  by (cases op) simp_all

lemma query_fields_single: "query_fields [Statement k v] = [(k, v)]"
  by (simp add: query_fields_def)

lemma fields_subqueries:
  "set (query_fields
      (case filter (\<lambda>q. q \<noteq> []) qs of [] \<Rightarrow> [] | q # qs' \<Rightarrow> [Group op (q # qs')])) =
     (\<Union>q\<in>set qs. set (query_fields q))"
proof -
  have "(\<Union>q\<in>set (filter (\<lambda>q. q \<noteq> []) qs). set (query_fields q)) = (\<Union>q\<in>set qs. set (query_fields q))"
    by (auto simp: query_fields_def)
  then show ?thesis
    by (cases "filter (\<lambda>q. q \<noteq> []) qs")
       (simp_all add: set_query_fields set_statement_fields_Group del: statement_fields.simps)
qed

lemma mapStatement_wf_fields:
  assumes fn: "renames fn g"
  shows "wf_statement s \<Longrightarrow> inj_on g (key_space (set (statement_fields s))) \<Longrightarrow>
     (\<forall>t\<in>set (mapStatement fn s). wf_statement t)
     \<and> set (query_fields (mapStatement fn s)) = (\<Union>p\<in>set (statement_fields s). answer fn p)"
proof (induction s)
  case (Statement k v)
  from fn have "fn v k = None \<or> (\<exists>v'. fn v k = Some [Statement (g k) v'])"
    by (simp add: renames_def)
  then show ?case
    by (auto simp: answer_def query_fields_def)
next
  case (Group op qs)
  let ?m = "\<lambda>q. assign_all (map (mapStatement fn) q)"
  have sub: "distinct (map statement_key q) \<and> inj_on g (statement_key ` set q)
      \<and> (\<forall>s\<in>set q. wf_statement s \<and> inj_on g (key_space (set (statement_fields s))))"
    if q: "q \<in> set qs" for q
  proof -
    from Group.prems(1) q have d: "distinct (map statement_key q)" and w: "\<forall>s\<in>set q. wf_statement s"
      by auto
    have "set (query_fields q) \<subseteq> set (statement_fields (Group op qs))"
      unfolding set_statement_fields_Group using q by blast
    then have space: "key_space (set (query_fields q)) \<subseteq> key_space (set (statement_fields (Group op qs)))"
      by (rule key_space_mono)
    have "statement_key ` set q \<subseteq> key_space (set (query_fields q))"
      using statement_key_space by blast
    with space Group.prems(2) have i: "inj_on g (statement_key ` set q)"
      by (meson inj_on_subset subset_trans)
    have "inj_on g (key_space (set (statement_fields s)))" if "s \<in> set q" for s
    proof -
      have "set (statement_fields s) \<subseteq> set (query_fields q)"
        using that by (auto simp: set_query_fields)
      then have "key_space (set (statement_fields s)) \<subseteq> key_space (set (query_fields q))"
        by (rule key_space_mono)
      with space Group.prems(2) show ?thesis
        by (meson inj_on_subset subset_trans)
    qed
    with d w i show ?thesis
      by blast
  qed
  have each: "?m q = concat (map (mapStatement fn) q)
      \<and> distinct (map statement_key (?m q))
      \<and> (\<forall>t\<in>set (?m q). wf_statement t)
      \<and> set (query_fields (?m q)) = (\<Union>p\<in>set (query_fields q). answer fn p)"
    if q: "q \<in> set qs" for q
  proof -
    from sub [OF q] have d: "distinct (map statement_key q)" and i: "inj_on g (statement_key ` set q)"
      and w: "\<forall>s\<in>set q. wf_statement s \<and> inj_on g (key_space (set (statement_fields s)))"
      by auto
    have c: "?m q = concat (map (mapStatement fn) q)"
      and dm: "distinct (map statement_key (?m q))"
      using mapQuery_concat [OF fn d i] by (simp_all add: mapQuery_def)
    have IH: "(\<forall>t\<in>set (mapStatement fn s). wf_statement t)
        \<and> set (query_fields (mapStatement fn s)) = (\<Union>p\<in>set (statement_fields s). answer fn p)"
      if "s \<in> set q" for s
      using Group.IH [OF q that] w that by blast
    have "\<forall>t\<in>set (?m q). wf_statement t"
      unfolding c using IH by auto
    moreover have "set (query_fields (?m q)) = (\<Union>p\<in>set (query_fields q). answer fn p)"
      unfolding c using IH by (auto simp: set_query_fields)
    ultimately show ?thesis
      using c dm by blast
  qed
  have each_wf: "distinct (map statement_key (?m q)) \<and> (\<forall>t\<in>set (?m q). wf_statement t)"
    if "q \<in> set qs" for q
    using each [OF that] by blast
  have each_fields: "set (query_fields (?m q)) = (\<Union>p\<in>set (query_fields q). answer fn p)"
    if "q \<in> set qs" for q
    using each [OF that] by blast
  have result: "mapStatement fn (Group op qs) =
      (case filter (\<lambda>q. q \<noteq> []) (map ?m qs) of [] \<Rightarrow> [] | q # qs' \<Rightarrow> [Group op (q # qs')])"
    by (simp add: comp_def)
  have "set (query_fields (mapStatement fn (Group op qs))) = (\<Union>q\<in>set (map ?m qs). set (query_fields q))"
    unfolding result by (rule fields_subqueries)
  also have "\<dots> = (\<Union>q\<in>set qs. \<Union>p\<in>set (query_fields q). answer fn p)"
    by (simp add: each_fields)
  also have "\<dots> = (\<Union>p\<in>set (statement_fields (Group op qs)). answer fn p)"
    by (auto simp: set_statement_fields_Group simp del: statement_fields.simps)
  finally have fields: "set (query_fields (mapStatement fn (Group op qs))) =
      (\<Union>p\<in>set (statement_fields (Group op qs)). answer fn p)" .
  have "wf_statement t" if t: "t \<in> set (mapStatement fn (Group op qs))" for t
  proof (cases "filter (\<lambda>q. q \<noteq> []) (map ?m qs)")
    case Nil
    with t show ?thesis
      unfolding result by simp
  next
    case (Cons q' qs')
    with t have t': "t = Group op (q' # qs')"
      unfolding result by simp
    have sub: "set (q' # qs') \<subseteq> set (map ?m qs)"
      unfolding Cons [symmetric] by (rule filter_is_subset)
    have "distinct (map statement_key r) \<and> (\<forall>s\<in>set r. wf_statement s)"
      if "r \<in> set (q' # qs')" for r
    proof -
      from that sub obtain q where "q \<in> set qs" and "r = ?m q"
        by auto
      then show ?thesis
        using each_wf [of q] by simp
    qed
    then have "wf_statement (Group op (q' # qs'))"
      unfolding wf_statement.simps by blast
    with t' show ?thesis
      by simp
  qed
  with fields show ?case
    by blast
qed

lemma mapQuery_wf_fields:
  assumes "renames fn g"
    and "wf_query q"
    and "inj_on g (key_space (set (query_fields q)))"
  shows "wf_query (mapQuery q fn)"
    and "set (query_fields (mapQuery q fn)) = (\<Union>p\<in>set (query_fields q). answer fn p)"
proof -
  from assms(2) have d: "distinct (map statement_key q)" and w: "\<forall>s\<in>set q. wf_statement s"
    by (simp_all add: wf_query_def)
  have "statement_key ` set q \<subseteq> key_space (set (query_fields q))"
    using statement_key_space by blast
  with assms(3) have i: "inj_on g (statement_key ` set q)"
    by (rule inj_on_subset)
  have c: "mapQuery q fn = concat (map (mapStatement fn) q)"
    and dm: "distinct (map statement_key (mapQuery q fn))"
    using mapQuery_concat [OF assms(1) d i] by simp_all
  have each: "(\<forall>t\<in>set (mapStatement fn s). wf_statement t)
      \<and> set (query_fields (mapStatement fn s)) = (\<Union>p\<in>set (statement_fields s). answer fn p)"
    if s: "s \<in> set q" for s
  proof -
    have "set (statement_fields s) \<subseteq> set (query_fields q)"
      using s by (auto simp: set_query_fields)
    then have "key_space (set (statement_fields s)) \<subseteq> key_space (set (query_fields q))"
      by (rule key_space_mono)
    with assms(3) have "inj_on g (key_space (set (statement_fields s)))"
      by (rule inj_on_subset)
    with w s show ?thesis
      using mapStatement_wf_fields [OF assms(1)] by blast
  qed
  show "wf_query (mapQuery q fn)"
    using dm each by (auto simp: wf_query_def c)
  show "set (query_fields (mapQuery q fn)) = (\<Union>p\<in>set (query_fields q). answer fn p)"
    unfolding c using each by (auto simp: set_query_fields)
qed

text \<open>The two passes of the transformer.\<close>

lemma rejectNonStatusTransformer_wf_fields:
  assumes "wf_query q"
  shows "wf_query (rejectNonStatusTransformer q)"
    and "set (query_fields (rejectNonStatusTransformer q)) =
           {(k, v). (k, v) \<in> set (query_fields q) \<and> k = ''status''}"
proof -
  let ?fn = "\<lambda>v key. if key \<noteq> ''status'' then None else Some [Statement key (v :: qvalue)]"
  have r: "renames ?fn id"
    by (simp add: renames_def)
  have i: "inj_on id (key_space (set (query_fields q)))"
    by simp
  show "wf_query (rejectNonStatusTransformer q)"
    unfolding rejectNonStatusTransformer_def by (rule mapQuery_wf_fields(1) [OF r assms i])
  have "set (query_fields (rejectNonStatusTransformer q)) = (\<Union>p\<in>set (query_fields q). answer ?fn p)"
    unfolding rejectNonStatusTransformer_def by (rule mapQuery_wf_fields(2) [OF r assms i])
  also have "\<dots> = {(k, v). (k, v) \<in> set (query_fields q) \<and> k = ''status''}"
    by (auto simp: answer_def query_fields_single split: if_splits)
  finally show "set (query_fields (rejectNonStatusTransformer q)) =
           {(k, v). (k, v) \<in> set (query_fields q) \<and> k = ''status''}" .
qed

lemma statusTransformer_wf_fields:
  assumes "wf_query q"
    and "fst ` set (query_fields q) \<subseteq> {''status''}"
  shows "set (query_fields (statusTransformer unlisted q)) =
           (\<lambda>(k, v). (''active'', mapValue unlisted status_values v)) ` set (query_fields q)"
proof -
  let ?g = "\<lambda>k. if k = ''status'' then ''active'' else k"
  let ?fn = "\<lambda>v k. if k \<noteq> ''status'' then Some [Statement k v]
                    else Some [Statement ''active'' (mapValue unlisted status_values v)]"
  let ?h = "\<lambda>(k, v). (''active'', mapValue unlisted status_values v)"
  have transformer: "statusTransformer unlisted q = mapQuery q ?fn"
    unfolding statusTransformer_def mapKeyValues_def fst_conv snd_conv by (rule refl)
  have r: "renames ?fn ?g"
    by (simp add: renames_def group_key_not_status)
  have "key_space (set (query_fields q)) \<subseteq> {''status'', ''$and'', ''$or''}"
    using assms(2) by (auto simp: key_space_def range_group_key)
  moreover have "inj_on ?g {''status'', ''$and'', ''$or''}"
    by (rule inj_onI) (auto split: if_splits)
  ultimately have i: "inj_on ?g (key_space (set (query_fields q)))"
    by (rule inj_on_subset [rotated])
  have one: "answer ?fn p = {?h p}" if "p \<in> set (query_fields q)" for p
  proof -
    obtain k v where p: "p = (k, v)"
      by (cases p)
    with that assms(2) have "k = ''status''"
      by force
    with p show ?thesis
      by (simp add: answer_def query_fields_single)
  qed
  have "set (query_fields (statusTransformer unlisted q)) = (\<Union>p\<in>set (query_fields q). answer ?fn p)"
    unfolding transformer by (rule mapQuery_wf_fields(2) [OF r assms(1) i])
  also have "\<dots> = (\<Union>p\<in>set (query_fields q). {?h p})"
    using one by (rule SUP_cong [OF refl])
  also have "\<dots> = ?h ` set (query_fields q)"
    by blast
  finally show ?thesis .
qed

lemma mongoTransformer_wf_fields:
  assumes "wf_query q"
  shows "set (query_fields (mongoTransformer unlisted q)) =
           (\<lambda>(k, v). (''active'', mapValue unlisted status_values v)) `
             {(k, v). (k, v) \<in> set (query_fields q) \<and> k = ''status''}"
proof -
  let ?r = "rejectNonStatusTransformer q"
  have fields: "set (query_fields ?r) = {(k, v). (k, v) \<in> set (query_fields q) \<and> k = ''status''}"
    by (rule rejectNonStatusTransformer_wf_fields(2) [OF assms])
  then have keys: "fst ` set (query_fields ?r) \<subseteq> {''status''}"
    by auto
  have "mongoTransformer unlisted q = statusTransformer unlisted ?r"
    by (simp add: mongoTransformer_def flowRight_def)
  then have "set (query_fields (mongoTransformer unlisted q)) =
      (\<lambda>(k, v). (''active'', mapValue unlisted status_values v)) ` set (query_fields ?r)"
    using statusTransformer_wf_fields [OF rejectNonStatusTransformer_wf_fields(1) [OF assms] keys]
    by simp
  then show ?thesis
    unfolding fields .
qed

text \<open>A flat query: the fragments of its fields are merged one after the other.\<close>

lemma rejectNonStatusTransformer_snoc:
  "rejectNonStatusTransformer (q @ [Statement k v]) =
     (if k = ''status'' then assign_entry (Statement k v) (rejectNonStatusTransformer q)
      else rejectNonStatusTransformer q)"
  by (simp add: rejectNonStatusTransformer_def mapQuery_def assign_all_def Object_assign_def)

lemma rejectNonStatusTransformer_flat:
  "list_all is_field q \<Longrightarrow>
   rejectNonStatusTransformer q =
     (case last_status q of None \<Rightarrow> [] | Some v \<Rightarrow> [Statement ''status'' v])"
proof (induction q rule: rev_induct)
  case Nil
  show ?case
    by (simp add: rejectNonStatusTransformer_def mapQuery_def assign_all_def last_status_def query_fields_def)
next
  case (snoc s q)
  from snoc.prems obtain k v where s: "s = Statement k v"
    by (cases s) simp_all
  from snoc have IH: "rejectNonStatusTransformer q =
     (case last_status q of None \<Rightarrow> [] | Some v \<Rightarrow> [Statement ''status'' v])"
    by simp
  have last: "last_status (q @ [s]) = (if k = ''status'' then Some v else last_status q)"
    by (simp add: last_status_def query_fields_def s)
  show ?case
    unfolding s rejectNonStatusTransformer_snoc last [unfolded s] IH
    by (simp split: option.splits)
qed

lemma statusTransformer_status:
  "statusTransformer unlisted [Statement ''status'' v] =
     [Statement ''active'' (mapValue unlisted status_values v)]"
  by (simp add: statusTransformer_def mapKeyValues_def mapQuery_def assign_all_def Object_assign_def)

lemma statusTransformer_Nil: "statusTransformer unlisted [] = []"
  by (simp add: statusTransformer_def mapKeyValues_def mapQuery_def assign_all_def)

lemma mongoTransformer_flat:
  assumes "list_all is_field q"
  shows "mongoTransformer unlisted q =
     (case last_status q of None \<Rightarrow> []
      | Some v \<Rightarrow> [Statement ''active'' (mapValue unlisted status_values v)])"
  using rejectNonStatusTransformer_flat [OF assms]
  by (simp add: mongoTransformer_def flowRight_def statusTransformer_status statusTransformer_Nil
      split: option.splits)
text \<open>
  Claim C5. \<open>getAll\<close> first calls \<open>findAll\<close>, with the options of its caller and its
  \<open>mongoTransformer\<close>, so that the query run is the transformed filter. The fields of
  the transformed filter, in its groups too, are exactly the \<open>status\<close> fields of the
  filter, each with the key \<open>active\<close> and its value translated: every \<open>status\<close> field
  is kept and translated, and no other field is kept. A flat filter becomes the one
  field \<open>active\<close> with the translated value of its \<open>status\<close>, or the empty query when
  it has no \<open>status\<close>. The value \<open>active\<close> is translated to true and \<open>archived\<close> to
  false.
\<close>

theorem getAll_status_filter:
  "take 1 (fst (getAll unlisted repo options)) = [FindAll (getAll_findAll_options unlisted options)]
   \<and> effective_query (getAll_findAll_options unlisted (Some opts)) =
       map_option (mongoTransformer unlisted) (filter_q opts)
   \<and> (wf_query q \<longrightarrow>
        set (query_fields (mongoTransformer unlisted q)) =
          (\<lambda>(k, v). (''active'', mapValue unlisted status_values v)) `
            {(k, v). (k, v) \<in> set (query_fields q) \<and> k = ''status''})
   \<and> (list_all is_field q \<longrightarrow>
        mongoTransformer unlisted q =
          (case last_status q of None \<Rightarrow> []
           | Some v \<Rightarrow> [Statement ''active'' (mapValue unlisted status_values v)]))
   \<and> mapValue unlisted status_values (QString ''active'') = QBool True
   \<and> mapValue unlisted status_values (QString ''archived'') = QBool False"
proof -
  have "take 1 (fst (getAll unlisted repo options)) = [FindAll (getAll_findAll_options unlisted options)]"
    by (simp add: getAll_def Let_def split: sum.splits)
  moreover have "effective_query (getAll_findAll_options unlisted (Some opts)) =
      map_option (mongoTransformer unlisted) (filter_q opts)"
    by (simp add: effective_query_def getAll_findAll_options_def)
  moreover have "mapValue unlisted status_values (QString ''active'') = QBool True"
    and "mapValue unlisted status_values (QString ''archived'') = QBool False"
    by (simp_all add: mapValue_def status_values_def)
  ultimately show ?thesis
    using mongoTransformer_wf_fields [of q unlisted] mongoTransformer_flat [of q unlisted] by simp
qed

theorem getAll_status_filter_witness:
  "list_all is_field example_filter
   \<and> last_status example_filter = Some (QString ''archived'')
   \<and> effective_query (getAll_findAll_options id (Some example_options)) =
       Some [Statement ''active'' (QBool False)]
   \<and> mongoTransformer id [Statement ''status'' (QString ''archived'')] =
       [Statement ''active'' (QBool False)]
   \<and> mongoTransformer id [Statement ''status'' (QString ''active'')] =
       [Statement ''active'' (QBool True)]
   \<and> mongoTransformer id [Statement ''name'' (QString ''Black Friday'')] = []
   \<and> wf_query example_filter_grouped
   \<and> set (query_fields (mongoTransformer id example_filter_grouped)) =
       {(''active'', QBool True), (''active'', QOperators [(''$ne'', QString ''archived'')])}
   \<and> mongoTransformer id example_filter_grouped =
       [Group Or [[Statement ''active'' (QBool True)]],
        Statement ''active'' (QOperators [(''$ne'', QString ''archived'')])]"
proof -
  note flat_case = getAll_status_filter
    [THEN conjunct2, THEN conjunct2, THEN conjunct2, THEN conjunct1, THEN mp]
  note wf_case = getAll_status_filter
    [THEN conjunct2, THEN conjunct2, THEN conjunct1, THEN mp]
  note run = getAll_status_filter [THEN conjunct2, THEN conjunct1]
  have translated: "mapValue id status_values (QString ''active'') = QBool True"
    "mapValue id status_values (QString ''archived'') = QBool False"
    "mapValue id status_values (QOperators [(''$ne'', QString ''archived'')]) =
       QOperators [(''$ne'', QString ''archived'')]"
    by (simp_all add: mapValue_def status_values_def)
  have flat: "list_all is_field example_filter"
    by (simp add: example_filter_def)
  have last: "last_status example_filter = Some (QString ''archived'')"
    by (simp add: last_status_def query_fields_def example_filter_def)
  have transformed: "mongoTransformer id example_filter = [Statement ''active'' (QBool False)]"
    using flat_case [OF flat, of id] by (simp add: last translated)
  have effective: "effective_query (getAll_findAll_options id (Some example_options)) =
       Some [Statement ''active'' (QBool False)]"
    using run [of id example_options] by (simp add: example_options_def transformed)
  have archived: "mongoTransformer id [Statement ''status'' (QString ''archived'')] =
       [Statement ''active'' (QBool False)]"
    using flat_case [of "[Statement ''status'' (QString ''archived'')]" id]
    by (simp add: last_status_def query_fields_def translated)
  have active: "mongoTransformer id [Statement ''status'' (QString ''active'')] =
       [Statement ''active'' (QBool True)]"
    using flat_case [of "[Statement ''status'' (QString ''active'')]" id]
    by (simp add: last_status_def query_fields_def translated)
  have name: "mongoTransformer id [Statement ''name'' (QString ''Black Friday'')] = []"
    using flat_case [of "[Statement ''name'' (QString ''Black Friday'')]" id]
    by (simp add: last_status_def query_fields_def)
  have wf: "wf_query example_filter_grouped"
    by (simp add: wf_query_def example_filter_grouped_def)
  have status: "{(k, v). (k, v) \<in> set (query_fields example_filter_grouped) \<and> k = ''status''} =
      {(''status'', QString ''active''), (''status'', QOperators [(''$ne'', QString ''archived'')])}"
    by (auto simp: query_fields_def example_filter_grouped_def)
  have fields: "set (query_fields (mongoTransformer id example_filter_grouped)) =
       {(''active'', QBool True), (''active'', QOperators [(''$ne'', QString ''archived'')])}"
    unfolding wf_case [OF wf, of id] status by (simp add: translated)
  have grouped: "mongoTransformer id example_filter_grouped =
       [Group Or [[Statement ''active'' (QBool True)]],
        Statement ''active'' (QOperators [(''$ne'', QString ''archived'')])]"
    by (simp add: mongoTransformer_def flowRight_def statusTransformer_def mapKeyValues_def
        rejectNonStatusTransformer_def mapQuery_def assign_all_def Object_assign_def
        mapValue_def status_values_def example_filter_grouped_def)
  show ?thesis
    by (intro conjI flat last effective archived active name wf fields grouped)
qed

end
